theory Spec2Isabelle
  imports Complex_Main
begin

section \<open>Smart waste management dashboard: the bin fleet and its derived metrics\<close>

text \<open>
  A shallow embedding of the decision logic of \<^verbatim>\<open>app.py\<close>: the generator of bin
  readings, the status thresholds, the efficiency metrics, the alert lists, the map
  marker colours and the refresh checks of \<^verbatim>\<open>main\<close>. Page layout, charts and
  styling are not modelled.
\<close>

subsection \<open>Values of the host language\<close>

text \<open>
  Python floats are IEEE binary64 numbers. The code only stores float literals and
  builds one arithmetic expression over floats, so a float is kept here as the
  expression that computes it, in the order the interpreter evaluates it; no rounding
  behaviour is assumed. \<open>FloatLit r\<close> is the float a decimal literal \<open>r\<close> denotes,
  \<open>FloatOfInt n\<close> the conversion of the integer \<open>n\<close> that a mixed int/float operator
  performs, \<open>NpMean xs\<close> the result of \<^verbatim>\<open>np.mean\<close> on a list of integers.
\<close>

datatype pyfloat =
    FloatLit rat
  | FloatOfInt int
  | FloatAdd pyfloat pyfloat
  | FloatMul pyfloat pyfloat
  | FloatDiv pyfloat pyfloat
  | NpMean "int list"

text \<open>The only exception the modelled functions can raise.\<close>

datatype py_error = ZeroDivisionError

text \<open>
  \<^verbatim>\<open>x / n\<close> for a float \<open>x\<close> and an integer \<open>n\<close>: the interpreter raises
  \<^verbatim>\<open>ZeroDivisionError\<close> when \<open>n\<close> is zero and divides by the converted \<open>n\<close>
  otherwise.
\<close>

definition py_truediv :: "pyfloat \<Rightarrow> int \<Rightarrow> py_error + pyfloat" where
  "py_truediv x n = (if n = 0 then Inl ZeroDivisionError else Inr (FloatDiv x (FloatOfInt n)))"

subsection \<open>The random source and the clock\<close>

text \<open>
  \<^verbatim>\<open>random.randint\<close> and \<^verbatim>\<open>datetime.now\<close> read the outside world. The
  environment holds the stream of raw random draws and the stream of clock readings
  (microseconds since a fixed epoch, the resolution of \<^verbatim>\<open>datetime\<close>) together with
  how many of each have been consumed. Every theorem below holds for all environments.
\<close>

record env =
  rand_src :: "nat \<Rightarrow> nat"
  rand_pos :: nat
  clock_src :: "nat \<Rightarrow> int"
  clock_pos :: nat

text \<open>
  \<^verbatim>\<open>random.randint(lo, hi)\<close>: an integer between \<open>lo\<close> and \<open>hi\<close>, both included.
  Every call of the source has constant bounds with \<open>lo < hi\<close>.
\<close>

definition randint :: "int \<Rightarrow> int \<Rightarrow> env \<Rightarrow> int \<times> env" where
  "randint lo hi e =
     (lo + int (rand_src e (rand_pos e) mod nat (hi - lo + 1)),
      e\<lparr>rand_pos := Suc (rand_pos e)\<rparr>)"

text \<open>\<^verbatim>\<open>datetime.now()\<close>: the next reading of the clock.\<close>

definition now :: "env \<Rightarrow> int \<times> env" where
  "now e = (clock_src e (clock_pos e), e\<lparr>clock_pos := Suc (clock_pos e)\<rparr>)"

text \<open>\<^verbatim>\<open>timedelta(hours=h)\<close> in microseconds.\<close>

definition timedelta_hours :: "int \<Rightarrow> int" where
  "timedelta_hours h = h * 3600 * 1000000"

text \<open>
  The \<^verbatim>\<open>.seconds\<close> attribute of a \<^verbatim>\<open>timedelta\<close> of \<open>d\<close> microseconds. A
  \<^verbatim>\<open>timedelta\<close> is normalised to days, seconds (from 0 to 86399) and microseconds
  (from 0 to 999999); \<^verbatim>\<open>.seconds\<close> is the middle component.
\<close>

definition timedelta_seconds :: "int \<Rightarrow> int" where
  "timedelta_seconds d = (d div 1000000) mod 86400"

subsection \<open>Bin readings\<close>

text \<open>An entry of \<^verbatim>\<open>bin_locations\<close> (the key \<^verbatim>\<open>id\<close> is \<open>loc_id\<close> here).\<close>

record location =
  loc_id :: string
  loc_lat :: pyfloat
  loc_lon :: pyfloat
  loc_area :: string

text \<open>
  A dictionary appended to \<^verbatim>\<open>bins\<close>: the keys of the location (spread by
  \<^verbatim>\<open>**location\<close>) followed by the generated ones. \<open>waste_classification\<close> keeps
  the insertion order of the dictionary literal.
\<close>

record bin =
  bin_id :: string
  lat :: pyfloat
  lon :: pyfloat
  area :: string
  fill_level :: int
  status :: string
  last_collection :: int
  daily_waste :: int
  waste_classification :: "(string \<times> int) list"
  temperature :: int
  humidity :: int

definition bin_locations :: "location list" where
  "bin_locations =
    [\<lparr>loc_id = ''BIN001'', loc_lat = FloatLit 28.6139, loc_lon = FloatLit 77.2090, loc_area = ''Connaught Place''\<rparr>,
     \<lparr>loc_id = ''BIN002'', loc_lat = FloatLit 28.6562, loc_lon = FloatLit 77.2410, loc_area = ''Red Fort''\<rparr>,
     \<lparr>loc_id = ''BIN003'', loc_lat = FloatLit 28.5535, loc_lon = FloatLit 77.2588, loc_area = ''Lotus Temple''\<rparr>,
     \<lparr>loc_id = ''BIN004'', loc_lat = FloatLit 28.6129, loc_lon = FloatLit 77.2295, loc_area = ''India Gate''\<rparr>,
     \<lparr>loc_id = ''BIN005'', loc_lat = FloatLit 28.6448, loc_lon = FloatLit 77.2167, loc_area = ''Chandni Chowk''\<rparr>,
     \<lparr>loc_id = ''BIN006'', loc_lat = FloatLit 28.5244, loc_lon = FloatLit 77.1855, loc_area = ''Qutub Minar''\<rparr>,
     \<lparr>loc_id = ''BIN007'', loc_lat = FloatLit 28.6692, loc_lon = FloatLit 77.4538, loc_area = ''Akshardham''\<rparr>,
     \<lparr>loc_id = ''BIN008'', loc_lat = FloatLit 28.6304, loc_lon = FloatLit 77.2177, loc_area = ''Rajpath''\<rparr>]"

text \<open>
  The status expression of \<^verbatim>\<open>generate_bin_data\<close> (line 83):
  \<^verbatim>\<open>"Critical" if fill_level > 85 else "Warning" if fill_level > 70 else "Good"\<close>.
\<close>

definition classify :: "int \<Rightarrow> string" where
  "classify fill = (if fill > 85 then ''Critical'' else if fill > 70 then ''Warning'' else ''Good'')"

text \<open>
  The body of the loop of \<^verbatim>\<open>generate_bin_data\<close>, for one location: the draws in
  the order the interpreter makes them, then the dictionary.
\<close>

definition generate_bin :: "location \<Rightarrow> env \<Rightarrow> bin \<times> env" where
  "generate_bin loc e0 =
    (let (fill, e1) = randint 10 95 e0;
         st = classify fill;
         (plastic, e2) = randint 20 40 e1;
         (paper, e3) = randint 15 30 e2;
         (glass, e4) = randint 5 20 e3;
         (metal, e5) = randint 5 15 e4;
         (organic, e6) = randint 25 45 e5;
         waste_types = [(''Plastic'', plastic), (''Paper'', paper), (''Glass'', glass),
                        (''Metal'', metal), (''Organic'', organic)];
         (t, e7) = now e6;
         (hours, e8) = randint 2 48 e7;
         (waste, e9) = randint 50 200 e8;
         (temp, e10) = randint 20 35 e9;
         (hum, e11) = randint 40 80 e10
     in (\<lparr>bin_id = loc_id loc, lat = loc_lat loc, lon = loc_lon loc, area = loc_area loc,
          fill_level = fill, status = st,
          last_collection = t - timedelta_hours hours,
          daily_waste = waste, waste_classification = waste_types,
          temperature = temp, humidity = hum\<rparr>, e11))"

text \<open>The loop over the locations, appending to \<^verbatim>\<open>bins\<close>.\<close>

fun generate_loop :: "location list \<Rightarrow> bin list \<Rightarrow> env \<Rightarrow> bin list \<times> env" where
  "generate_loop [] bins e = (bins, e)"
| "generate_loop (loc # locs) bins e =
     (let (b, e') = generate_bin loc e in generate_loop locs (bins @ [b]) e')"

definition generate_bin_data :: "env \<Rightarrow> bin list \<times> env" where
  "generate_bin_data e = generate_loop bin_locations [] e"

subsection \<open>The map markers\<close>

text \<open>
  \<^verbatim>\<open>create_city_map\<close> adds one circle marker per bin, coloured from the fill
  level (line 119). The marker keeps its position and its two colour arguments; the
  popup text and the radius are presentation and are left out.
\<close>

record marker =
  marker_location :: "pyfloat \<times> pyfloat"
  marker_color :: string
  marker_fillColor :: string

definition circle_marker :: "bin \<Rightarrow> marker" where
  "circle_marker bin_info =
    (let color = (if fill_level bin_info > 85 then ''red''
                  else if fill_level bin_info > 70 then ''orange'' else ''green'')
     in \<lparr>marker_location = (lat bin_info, lon bin_info),
         marker_color = color, marker_fillColor = color\<rparr>)"

definition create_city_map :: "bin list \<Rightarrow> marker list" where
  "create_city_map bin_data = map circle_marker bin_data"

subsection \<open>The efficiency metrics\<close>

text \<open>
  The built-in \<^verbatim>\<open>sum\<close> over integers: it adds the items to an accumulator that
  starts at 0, from left to right.
\<close>

definition py_sum :: "int list \<Rightarrow> int" where
  "py_sum xs = fold (\<lambda>x acc. acc + x) xs 0"

record metrics =
  total_bins :: int
  critical_bins :: int
  warning_bins :: int
  good_bins :: int
  avg_fill_level :: pyfloat
  total_daily_waste :: int
  collection_efficiency :: pyfloat

text \<open>
  \<^verbatim>\<open>create_efficiency_metrics\<close>. The generator expression
  \<^verbatim>\<open>1 for bin_info in bin_data if bin_info['status'] == s\<close> yields a one for every
  bin with that status. The efficiency is
  \<^verbatim>\<open>((good_bins + warning_bins * 0.7) / total_bins) * 100\<close>; its division is the
  only operation that can raise, and nothing in the function catches the exception.
\<close>

definition create_efficiency_metrics :: "bin list \<Rightarrow> py_error + metrics" where
  "create_efficiency_metrics bin_data =
    (let total = int (length bin_data);
         critical = py_sum (map (\<lambda>bin_info. 1) (filter (\<lambda>bin_info. status bin_info = ''Critical'') bin_data));
         warning = py_sum (map (\<lambda>bin_info. 1) (filter (\<lambda>bin_info. status bin_info = ''Warning'') bin_data));
         good = total - critical - warning;
         avg = NpMean (map fill_level bin_data);
         waste = py_sum (map daily_waste bin_data)
     in case py_truediv (FloatAdd (FloatOfInt good) (FloatMul (FloatOfInt warning) (FloatLit 0.7))) total of
          Inl err \<Rightarrow> Inl err
        | Inr ratio \<Rightarrow>
            Inr \<lparr>total_bins = total, critical_bins = critical, warning_bins = warning,
                 good_bins = good, avg_fill_level = avg, total_daily_waste = waste,
                 collection_efficiency = FloatMul ratio (FloatOfInt 100)\<rparr>)"

subsection \<open>The alert lists\<close>

text \<open>
  The alerts section of \<^verbatim>\<open>main\<close> (lines 289 to 310): the bins for which a critical
  alert is written, and the bins for which a warning alert is written, each in the
  order it is written. The warning loop runs over the slice \<^verbatim>\<open>warning_bins[:3]\<close>.
\<close>

definition alerts :: "bin list \<Rightarrow> bin list \<times> bin list" where
  "alerts bin_data =
    (let critical = filter (\<lambda>bin_info. status bin_info = ''Critical'') bin_data;
         warning = filter (\<lambda>bin_info. status bin_info = ''Warning'') bin_data
     in (critical, take 3 warning))"

subsection \<open>The routes\<close>

text \<open>The list \<^verbatim>\<open>routes\<close> of \<^verbatim>\<open>create_route_optimization_chart\<close>.\<close>

record route =
  route_name :: string
  route_bins :: int
  route_distance :: pyfloat
  route_time :: pyfloat
  efficiency :: int

definition routes :: "route list" where
  "routes =
    [\<lparr>route_name = ''Route A'', route_bins = 8, route_distance = FloatLit 25.5, route_time = FloatLit 3.2, efficiency = 85\<rparr>,
     \<lparr>route_name = ''Route B'', route_bins = 6, route_distance = FloatLit 18.3, route_time = FloatLit 2.8, efficiency = 92\<rparr>,
     \<lparr>route_name = ''Route C'', route_bins = 10, route_distance = FloatLit 32.1, route_time = FloatLit 4.1, efficiency = 78\<rparr>,
     \<lparr>route_name = ''Route D'', route_bins = 7, route_distance = FloatLit 21.7, route_time = FloatLit 3.0, efficiency = 88\<rparr>]"

text \<open>
  Modelled from the spec: \<^verbatim>\<open>best_route\<close> and \<^verbatim>\<open>worst_route\<close> are not functions of
  \<^verbatim>\<open>app.py\<close>, which only names the best and the worst route in two fixed
  recommendation strings. The spec describes them as the maximum and the minimum by
  efficiency over the catalog, the first occurrence winning a tie. The scan below keeps
  the current champion and replaces it only by a strictly better route.
\<close>

fun scan_routes :: "(int \<Rightarrow> int \<Rightarrow> bool) \<Rightarrow> route \<Rightarrow> route list \<Rightarrow> route" where
  "scan_routes better champion [] = champion"
| "scan_routes better champion (r # rs) =
     scan_routes better (if better (efficiency r) (efficiency champion) then r else champion) rs"

definition select_route :: "(int \<Rightarrow> int \<Rightarrow> bool) \<Rightarrow> route list \<Rightarrow> route option" where
  "select_route better catalog =
    (case catalog of [] \<Rightarrow> None | r # rs \<Rightarrow> Some (scan_routes better r rs))"

definition best_route :: "route option" where
  "best_route = select_route (\<lambda>a b. a > b) routes"

definition worst_route :: "route option" where
  "worst_route = select_route (\<lambda>a b. a < b) routes"

subsection \<open>The session state and the refresh checks\<close>

text \<open>\<^verbatim>\<open>st.session_state\<close>: the time of the last update and the stored readings.\<close>

record session_state =
  last_update :: int
  bin_data :: "bin list"

text \<open>The initialisation at module level (lines 108 to 110), run on every pass.\<close>

definition init_session :: "session_state option \<Rightarrow> env \<Rightarrow> session_state \<times> env" where
  "init_session stored e =
    (case stored of
       Some s \<Rightarrow> (s, e)
     | None \<Rightarrow>
         (let (t, e1) = now e;
              (bins, e2) = generate_bin_data e1
          in (\<lparr>last_update = t, bin_data = bins\<rparr>, e2)))"

text \<open>
  The two statements that both refresh branches of \<^verbatim>\<open>main\<close> run before
  \<^verbatim>\<open>st.rerun()\<close> (lines 242 to 243 and 248 to 249).
\<close>

definition refresh :: "session_state \<Rightarrow> env \<Rightarrow> session_state \<times> env" where
  "refresh s e =
    (let (bins, e1) = generate_bin_data e;
         s1 = s\<lparr>bin_data := bins\<rparr>;
         (t, e2) = now e1
     in (s1\<lparr>last_update := t\<rparr>, e2))"

text \<open>
  The periodic check (lines 240 to 244), entered when the auto refresh box is ticked.
  \<^verbatim>\<open>time.sleep(1)\<close> only lets the clock advance, which the next clock reading
  shows. The result says whether \<^verbatim>\<open>st.rerun()\<close> was called.
\<close>

definition auto_refresh_check :: "session_state \<Rightarrow> env \<Rightarrow> bool \<times> session_state \<times> env" where
  "auto_refresh_check s e =
    (let (t, e1) = now e in
     if timedelta_seconds (t - last_update s) > 30
     then (let (s', e2) = refresh s e1 in (True, s', e2))
     else (False, s, e1))"

text \<open>
  The controls at the top of \<^verbatim>\<open>main\<close> (lines 236 to 250): the periodic check when
  \<open>auto_refresh\<close> is ticked, then the manual button. \<^verbatim>\<open>st.rerun()\<close> ends the pass.
\<close>

definition main_controls :: "bool \<Rightarrow> bool \<Rightarrow> session_state \<Rightarrow> env \<Rightarrow> bool \<times> session_state \<times> env" where
  "main_controls auto_refresh button s e =
    (let (rerun, s1, e1) = (if auto_refresh then auto_refresh_check s e else (False, s, e))
     in if rerun then (True, s1, e1)
        else if button then (let (s2, e2) = refresh s1 e1 in (True, s2, e2))
        else (False, s1, e1))"

subsection \<open>Auxiliary definitions for the statements\<close>

text \<open>The keys a bin takes over from its entry of \<^verbatim>\<open>bin_locations\<close>.\<close>

definition bin_location :: "bin \<Rightarrow> location" where
  "bin_location b = \<lparr>loc_id = bin_id b, loc_lat = lat b, loc_lon = lon b, loc_area = area b\<rparr>"

text \<open>
  The value a float expression has in exact rational arithmetic, that is, before any
  rounding to binary64. It is used to read the efficiency formula only; the value the
  interpreter returns is the rounded one.
\<close>

fun exact_value :: "pyfloat \<Rightarrow> rat" where
  "exact_value (FloatLit r) = r"
| "exact_value (FloatOfInt n) = of_int n"
| "exact_value (FloatAdd a b) = exact_value a + exact_value b"
| "exact_value (FloatMul a b) = exact_value a * exact_value b"
| "exact_value (FloatDiv a b) = exact_value a / exact_value b"
| "exact_value (NpMean xs) = of_int (sum_list xs) / of_nat (length xs)"

text \<open>
  An environment whose draws give the eight fill levels 90, 86, 70, 71, 50, 10, 85, 95
  (each bin takes ten draws, the first of them for the fill level), and the snapshot
  generated from it.
\<close>

definition scenario_env :: env where
  "scenario_env =
    \<lparr>rand_src = (\<lambda>n. if n mod 10 = 0 \<and> n div 10 < 8
                       then [80, 76, 60, 61, 40, 0, 75, 85] ! (n div 10) else 0),
     rand_pos = 0,
     clock_src = (\<lambda>n. 1700000000000000 + int n),
     clock_pos = 0\<rparr>"

definition scenario :: "bin list" where
  "scenario = fst (generate_bin_data scenario_env)"

text \<open>A catalog in which the best and the worst efficiency each occur twice.\<close>

definition tied_routes :: "route list" where
  "tied_routes =
    [\<lparr>route_name = ''Route A'', route_bins = 8, route_distance = FloatLit 25.5, route_time = FloatLit 3.2, efficiency = 85\<rparr>,
     \<lparr>route_name = ''Route B'', route_bins = 6, route_distance = FloatLit 18.3, route_time = FloatLit 2.8, efficiency = 92\<rparr>,
     \<lparr>route_name = ''Route E'', route_bins = 6, route_distance = FloatLit 18.3, route_time = FloatLit 2.8, efficiency = 92\<rparr>,
     \<lparr>route_name = ''Route C'', route_bins = 10, route_distance = FloatLit 32.1, route_time = FloatLit 4.1, efficiency = 78\<rparr>,
     \<lparr>route_name = ''Route F'', route_bins = 10, route_distance = FloatLit 32.1, route_time = FloatLit 4.1, efficiency = 78\<rparr>]"

section \<open>Facts shared by the proofs\<close>

subsection \<open>Sums and counts\<close>

lemma fold_add_sum: "fold (\<lambda>x acc. acc + x) xs (a::int) = a + sum_list xs"
  by (induction xs arbitrary: a) simp_all

lemma py_sum_sum_list: "py_sum xs = sum_list xs"
  by (simp add: py_sum_def fold_add_sum)

lemma sum_list_ones: "sum_list (map (\<lambda>x. 1) xs) = int (length xs)"
  by (induction xs) simp_all

lemma py_sum_ones: "py_sum (map (\<lambda>x. 1) xs) = int (length xs)"
  by (simp add: py_sum_sum_list sum_list_ones)

lemma filter_three_way:
  "length (filter (\<lambda>b. status b = ''Critical'') S) + length (filter (\<lambda>b. status b = ''Warning'') S)
   + length (filter (\<lambda>b. status b \<noteq> ''Critical'' \<and> status b \<noteq> ''Warning'') S) = length S"
  by (induction S) auto

lemma filter_status_map: "length (filter (\<lambda>b. P (status b)) S) = length (filter P (map status S))"
  by (induction S) simp_all

subsection \<open>What the metrics function returns\<close>

lemma metrics_empty: "create_efficiency_metrics [] = Inl ZeroDivisionError"
  by (simp add: create_efficiency_metrics_def py_truediv_def py_sum_def)

lemma metrics_ok:
  "S \<noteq> [] \<Longrightarrow> create_efficiency_metrics S =
     Inr \<lparr>total_bins = int (length S),
          critical_bins = int (length (filter (\<lambda>b. status b = ''Critical'') S)),
          warning_bins = int (length (filter (\<lambda>b. status b = ''Warning'') S)),
          good_bins = int (length S) - int (length (filter (\<lambda>b. status b = ''Critical'') S))
                      - int (length (filter (\<lambda>b. status b = ''Warning'') S)),
          avg_fill_level = NpMean (map fill_level S),
          total_daily_waste = sum_list (map daily_waste S),
          collection_efficiency =
            FloatMul (FloatDiv (FloatAdd (FloatOfInt (int (length S) - int (length (filter (\<lambda>b. status b = ''Critical'') S))
                      - int (length (filter (\<lambda>b. status b = ''Warning'') S))))
                 (FloatMul (FloatOfInt (int (length (filter (\<lambda>b. status b = ''Warning'') S)))) (FloatLit 0.7)))
                 (FloatOfInt (int (length S)))) (FloatOfInt 100)\<rparr>"
  by (simp add: create_efficiency_metrics_def py_truediv_def py_sum_ones Let_def)
     (simp add: py_sum_sum_list)

subsection \<open>The generator\<close>

lemma randint_range: "lo \<le> hi \<Longrightarrow> lo \<le> fst (randint lo hi e) \<and> fst (randint lo hi e) \<le> hi"
proof -
  assume le: "lo \<le> hi"
  then have pos: "0 < nat (hi - lo + 1)" by simp
  have "rand_src e (rand_pos e) mod nat (hi - lo + 1) < nat (hi - lo + 1)"
    using pos by (rule mod_less_divisor)
  then have "int (rand_src e (rand_pos e) mod nat (hi - lo + 1)) < hi - lo + 1"
    using le by linarith
  then show ?thesis by (simp add: randint_def)
qed

lemma generate_bin_location: "bin_location (fst (generate_bin loc e)) = loc"
  by (simp add: generate_bin_def bin_location_def Let_def split: prod.split)

lemma generate_bin_status:
  "status (fst (generate_bin loc e)) = classify (fill_level (fst (generate_bin loc e)))"
  by (simp add: generate_bin_def Let_def split: prod.split)

lemma generate_bin_fill_range:
  "10 \<le> fill_level (fst (generate_bin loc e)) \<and> fill_level (fst (generate_bin loc e)) \<le> 95"
  using randint_range [of 10 95 e]
  by (auto simp: generate_bin_def Let_def split: prod.split)

lemma generate_loop_locations:
  "map bin_location (fst (generate_loop locs bins e)) = map bin_location bins @ locs"
proof (induction locs arbitrary: bins e)
  case Nil
  show ?case by simp
next
  case (Cons loc locs)
  obtain b e' where g: "generate_bin loc e = (b, e')" by (cases "generate_bin loc e")
  have "bin_location b = loc" using generate_bin_location [of loc e] by (simp add: g)
  then show ?case by (simp add: g Cons.IH)
qed

lemma generate_loop_status:
  "\<forall>b\<in>set bins. status b = classify (fill_level b) \<Longrightarrow>
   \<forall>b\<in>set (fst (generate_loop locs bins e)). status b = classify (fill_level b)"
proof (induction locs arbitrary: bins e)
  case Nil
  then show ?case by simp
next
  case (Cons loc locs)
  obtain b e' where g: "generate_bin loc e = (b, e')" by (cases "generate_bin loc e")
  have "status b = classify (fill_level b)" using generate_bin_status [of loc e] by (simp add: g)
  with Cons.prems have "\<forall>x\<in>set (bins @ [b]). status x = classify (fill_level x)" by auto
  from Cons.IH [OF this] show ?case by (simp add: g)
qed

lemma generate_loop_fill_range:
  "\<forall>b\<in>set bins. 10 \<le> fill_level b \<and> fill_level b \<le> 95 \<Longrightarrow>
   \<forall>b\<in>set (fst (generate_loop locs bins e)). 10 \<le> fill_level b \<and> fill_level b \<le> 95"
proof (induction locs arbitrary: bins e)
  case Nil
  then show ?case by simp
next
  case (Cons loc locs)
  obtain b e' where g: "generate_bin loc e = (b, e')" by (cases "generate_bin loc e")
  have "10 \<le> fill_level b \<and> fill_level b \<le> 95"
    using generate_bin_fill_range [of loc e] by (simp add: g)
  with Cons.prems have "\<forall>x\<in>set (bins @ [b]). 10 \<le> fill_level x \<and> fill_level x \<le> 95" by auto
  from Cons.IH [OF this] show ?case by (simp add: g)
qed

lemma generated_fill_range:
  "\<forall>b\<in>set (fst (generate_bin_data e)). 10 \<le> fill_level b \<and> fill_level b \<le> 95"
  unfolding generate_bin_data_def by (rule generate_loop_fill_range) simp

lemma generated_locations: "map bin_location (fst (generate_bin_data e)) = bin_locations"
  by (simp add: generate_bin_data_def generate_loop_locations)

lemma map_loc_id: "map bin_id bins = map loc_id (map bin_location bins)"
  by (simp add: bin_location_def)

lemma generated_ids:
  "map bin_id (fst (generate_bin_data e)) =
     [''BIN001'', ''BIN002'', ''BIN003'', ''BIN004'', ''BIN005'', ''BIN006'', ''BIN007'', ''BIN008'']"
  by (simp add: map_loc_id generated_locations) (simp add: bin_locations_def)

lemma refresh_bin_data: "bin_data (fst (refresh s e)) = fst (generate_bin_data e)"
  by (simp add: refresh_def now_def Let_def split: prod.split)

lemma init_bin_data: "bin_data (fst (init_session None e)) = fst (generate_bin_data (snd (now e)))"
  by (simp add: init_session_def now_def Let_def split: prod.split)

subsection \<open>The scenario snapshot\<close>

lemmas scenario_eval = scenario_def scenario_env_def generate_bin_data_def bin_locations_def
  generate_bin_def randint_def now_def classify_def Let_def

lemma scenario_fill: "map fill_level scenario = [90, 86, 70, 71, 50, 10, 85, 95]"
  by (simp add: scenario_eval)

lemma scenario_status: "map status scenario =
   [''Critical'', ''Critical'', ''Good'', ''Warning'', ''Good'', ''Good'', ''Warning'', ''Critical'']"
  by (simp add: scenario_eval)

lemma scenario_length: "length scenario = 8"
  using arg_cong [OF scenario_status, of length] by simp

lemma scenario_nonempty: "scenario \<noteq> []"
  using scenario_length by auto

lemma scenario_critical: "length (filter (\<lambda>b. status b = ''Critical'') scenario) = 3"
  using filter_status_map [of "\<lambda>s. s = ''Critical''" scenario] by (simp add: scenario_status)

lemma scenario_warning: "length (filter (\<lambda>b. status b = ''Warning'') scenario) = 2"
  using filter_status_map [of "\<lambda>s. s = ''Warning''" scenario] by (simp add: scenario_status)

subsection \<open>The refresh checks\<close>

lemma generated_ids_catalog: "map bin_id (fst (generate_bin_data e)) = map loc_id bin_locations"
  by (simp add: map_loc_id generated_locations)

lemma refresh_ids: "map bin_id (bin_data (fst (refresh s e))) = map loc_id bin_locations"
  by (simp add: refresh_bin_data generated_ids_catalog)

lemma auto_refresh_check_cases:
  "auto_refresh_check s e =
     (if timedelta_seconds (clock_src e (clock_pos e) - last_update s) > 30
      then (True, refresh s (snd (now e)))
      else (False, s, snd (now e)))"
  by (simp add: auto_refresh_check_def now_def Let_def split: prod.split)

lemma auto_refresh_check_ids:
  "map bin_id (bin_data s) = map loc_id bin_locations \<Longrightarrow>
   map bin_id (bin_data (fst (snd (auto_refresh_check s e)))) = map loc_id bin_locations"
  by (simp add: auto_refresh_check_cases refresh_ids)

lemma main_controls_ids:
  assumes "map bin_id (bin_data s) = map loc_id bin_locations"
  shows "map bin_id (bin_data (fst (snd (main_controls auto_refresh button s e)))) = map loc_id bin_locations"
proof -
  obtain rerun s1 e1 where c: "(if auto_refresh then auto_refresh_check s e else (False, s, e)) = (rerun, s1, e1)"
    by (metis prod_cases3)
  have s1: "map bin_id (bin_data s1) = map loc_id bin_locations"
  proof (cases auto_refresh)
    case True
    with c have "auto_refresh_check s e = (rerun, s1, e1)" by simp
    with auto_refresh_check_ids [OF assms, of e] show ?thesis by simp
  next
    case False
    with c assms show ?thesis by simp
  qed
  have "fst (snd (main_controls auto_refresh button s e)) =
          (if rerun then s1 else if button then fst (refresh s1 e1) else s1)"
    unfolding main_controls_def c by (simp add: Let_def split: prod.split)
  then show ?thesis by (simp add: s1 refresh_ids)
qed

lemma timedelta_seconds_within_a_day:
  "0 \<le> d \<Longrightarrow> d < 86400 * 1000000 \<Longrightarrow> (timedelta_seconds d > 30 \<longleftrightarrow> d \<ge> 31 * 1000000)"
proof -
  assume d: "0 \<le> d" "d < 86400 * 1000000"
  then have "0 \<le> d div 1000000" "d div 1000000 < 86400" by simp_all
  then have "timedelta_seconds d = d div 1000000" by (simp add: timedelta_seconds_def)
  then show ?thesis by simp linarith
qed

subsection \<open>Selecting a route\<close>

lemma scan_routes_first:
  assumes bet: "\<And>a b. better a b \<longleftrightarrow> g b < (g a :: int)"
  shows "i < length pre \<Longrightarrow> pre ! i = c \<Longrightarrow>
     \<forall>j<i. g (efficiency (pre ! j)) < g (efficiency c) \<Longrightarrow>
     \<forall>x\<in>set pre. g (efficiency x) \<le> g (efficiency c) \<Longrightarrow>
     \<exists>k<length (pre @ rs). (pre @ rs) ! k = scan_routes better c rs
        \<and> (\<forall>j<k. g (efficiency ((pre @ rs) ! j)) < g (efficiency (scan_routes better c rs)))
        \<and> (\<forall>x\<in>set (pre @ rs). g (efficiency x) \<le> g (efficiency (scan_routes better c rs)))"
proof (induction rs arbitrary: pre i c)
  case Nil
  then show ?case by auto
next
  case (Cons r rs)
  let ?pre' = "pre @ [r]"
  show ?case
  proof (cases "better (efficiency r) (efficiency c)")
    case True
    then have lt: "g (efficiency c) < g (efficiency r)" by (simp add: bet)
    have 1: "length pre < length ?pre'" by simp
    have 2: "?pre' ! length pre = r" by simp
    have 3: "\<forall>j<length pre. g (efficiency (?pre' ! j)) < g (efficiency r)"
    proof (intro allI impI)
      fix j assume j: "j < length pre"
      then have "pre ! j \<in> set pre" by simp
      with Cons.prems(4) have "g (efficiency (pre ! j)) \<le> g (efficiency c)" by blast
      with lt j show "g (efficiency (?pre' ! j)) < g (efficiency r)" by (simp add: nth_append)
    qed
    have 4: "\<forall>x\<in>set ?pre'. g (efficiency x) \<le> g (efficiency r)"
      using Cons.prems(4) lt by auto
    from Cons.IH [OF 1 2 3 4] True show ?thesis by simp
  next
    case False
    then have le: "g (efficiency r) \<le> g (efficiency c)" by (simp add: bet)
    have 1: "i < length ?pre'" using Cons.prems(1) by simp
    have 2: "?pre' ! i = c" using Cons.prems(1,2) by (simp add: nth_append)
    have 3: "\<forall>j<i. g (efficiency (?pre' ! j)) < g (efficiency c)"
      using Cons.prems(1,3) by (simp add: nth_append)
    have 4: "\<forall>x\<in>set ?pre'. g (efficiency x) \<le> g (efficiency c)"
      using Cons.prems(4) le by auto
    from Cons.IH [OF 1 2 3 4] False show ?thesis by simp
  qed
qed

lemma select_route_first:
  assumes bet: "\<And>a b. better a b \<longleftrightarrow> g b < (g a :: int)" and ne: "catalog \<noteq> []"
  shows "\<exists>r k. select_route better catalog = Some r \<and> k < length catalog \<and> catalog ! k = r
        \<and> (\<forall>j<k. g (efficiency (catalog ! j)) < g (efficiency r))
        \<and> (\<forall>x\<in>set catalog. g (efficiency x) \<le> g (efficiency r))"
proof -
  from ne obtain c rs where cat: "catalog = c # rs" by (cases catalog) auto
  have "\<exists>k<length ([c] @ rs). ([c] @ rs) ! k = scan_routes better c rs
        \<and> (\<forall>j<k. g (efficiency (([c] @ rs) ! j)) < g (efficiency (scan_routes better c rs)))
        \<and> (\<forall>x\<in>set ([c] @ rs). g (efficiency x) \<le> g (efficiency (scan_routes better c rs)))"
    by (rule scan_routes_first [OF bet, of 0 "[c]" c]) simp_all
  then show ?thesis by (simp add: cat select_route_def)
qed

section \<open>The efficiency formula in exact arithmetic\<close>

text \<open>
  Read in exact rational arithmetic, the expression that \<^verbatim>\<open>create_efficiency_metrics\<close>
  evaluates for the collection efficiency is \<open>100 (good + 0.7 warning) / total\<close>; it
  lies between 0 and 100, is 100 exactly when no bin is counted as warning or critical,
  and is 0 exactly when no bin is counted as good or warning. The interpreter returns
  the binary64 evaluation of the expression, which these facts do not describe: rounding
  is not modelled.
\<close>

lemma collection_efficiency_exact:
  assumes "create_efficiency_metrics S = Inr m"
  shows "exact_value (collection_efficiency m) =
           100 * (of_int (good_bins m) + 7 / 10 * of_int (warning_bins m)) / of_int (total_bins m)
       \<and> 0 \<le> exact_value (collection_efficiency m) \<and> exact_value (collection_efficiency m) \<le> 100
       \<and> (exact_value (collection_efficiency m) = 100 \<longleftrightarrow> warning_bins m = 0 \<and> critical_bins m = 0)
       \<and> (exact_value (collection_efficiency m) = 0 \<longleftrightarrow> good_bins m = 0 \<and> warning_bins m = 0)"
proof -
  from assms have ne: "S \<noteq> []" by (auto simp: metrics_empty)
  define c where "c = length (filter (\<lambda>b. status b = ''Critical'') S)"
  define w where "w = length (filter (\<lambda>b. status b = ''Warning'') S)"
  define g where "g = length (filter (\<lambda>b. status b \<noteq> ''Critical'' \<and> status b \<noteq> ''Warning'') S)"
  have sum: "c + w + g = length S" unfolding c_def w_def g_def by (rule filter_three_way)
  have good: "int (length S) - int c - int w = int g" using sum by linarith
  from assms ne have m: "m = \<lparr>total_bins = int (length S), critical_bins = int c, warning_bins = int w,
      good_bins = int g, avg_fill_level = NpMean (map fill_level S),
      total_daily_waste = sum_list (map daily_waste S),
      collection_efficiency = FloatMul (FloatDiv (FloatAdd (FloatOfInt (int g))
         (FloatMul (FloatOfInt (int w)) (FloatLit 0.7))) (FloatOfInt (int (length S)))) (FloatOfInt 100)\<rparr>"
    by (simp add: metrics_ok c_def [symmetric] w_def [symmetric] good)
  define t :: rat where "t = of_nat (length S)"
  define n :: rat where "n = of_nat g + of_nat w * (7 / 10)"
  have tpos: "0 < t" using ne by (simp add: t_def)
  have tsum: "t = of_nat c + of_nat w + of_nat g" using sum by (simp add: t_def flip: of_nat_add)
  have cw: "(0::rat) \<le> of_nat c" "(0::rat) \<le> of_nat w" "(0::rat) \<le> of_nat g" by simp_all
  define q :: rat where "q = n / t"
  have ev: "exact_value (collection_efficiency m) = q * 100" by (simp add: m n_def t_def q_def)
  have eq: "q * 100 = 100 * (of_nat g + 7 / 10 * of_nat w) / t" by (simp add: q_def n_def)
  have n0: "0 \<le> n" unfolding n_def using cw by simp
  have nt: "n \<le> t" unfolding n_def tsum using cw by linarith
  have q0: "0 \<le> q" unfolding q_def using tpos n0 by simp
  have q1: "q \<le> 1" unfolding q_def using tpos nt by simp
  have v0: "0 \<le> q * 100" using q0 by simp
  have v100: "q * 100 \<le> 100" using q1 by simp
  have e100: "q * 100 = 100 \<longleftrightarrow> w = 0 \<and> c = 0"
  proof -
    have "q * 100 = 100 \<longleftrightarrow> q = 1" by simp
    also have "\<dots> \<longleftrightarrow> n = t" unfolding q_def using tpos by auto
    also have "\<dots> \<longleftrightarrow> (of_nat c :: rat) = 0 \<and> (of_nat w :: rat) = 0"
      unfolding n_def tsum using cw by linarith
    also have "\<dots> \<longleftrightarrow> w = 0 \<and> c = 0" by auto
    finally show ?thesis .
  qed
  have e0: "q * 100 = 0 \<longleftrightarrow> g = 0 \<and> w = 0"
  proof -
    have "q * 100 = 0 \<longleftrightarrow> q = 0" by simp
    also have "\<dots> \<longleftrightarrow> n = 0" unfolding q_def using tpos by simp
    also have "\<dots> \<longleftrightarrow> (of_nat g :: rat) = 0 \<and> (of_nat w :: rat) = 0"
      unfolding n_def using cw by linarith
    also have "\<dots> \<longleftrightarrow> g = 0 \<and> w = 0" by auto
    finally show ?thesis .
  qed
  have sel: "good_bins m = int g" "warning_bins m = int w" "critical_bins m = int c"
    "total_bins m = int (length S)" by (simp_all add: m)
  show ?thesis
    unfolding ev sel using eq v0 v100 e100 e0 by (simp add: t_def)
qed

lemma scenario_efficiency_exact:
  "\<exists>m. create_efficiency_metrics scenario = Inr m \<and> exact_value (collection_efficiency m) = 55"
  by (simp add: metrics_ok scenario_nonempty scenario_length scenario_critical scenario_warning)

section \<open>The status thresholds\<close>

text \<open>
  C1. The status is a total function of the integer fill level: Critical above 85,
  otherwise Warning above 70, otherwise Good. So 86 is Critical, 85 and 71 are Warning,
  70 is Good, and the result is always one of the three names.
\<close>

theorem classify_total:
  "classify f = (if f > 85 then ''Critical'' else if f > 70 then ''Warning'' else ''Good'')
   \<and> classify 86 = ''Critical'' \<and> classify 85 = ''Warning''
   \<and> classify 71 = ''Warning'' \<and> classify 70 = ''Good''
   \<and> classify f \<in> {''Good'', ''Warning'', ''Critical''}"
  by (simp add: classify_def)

theorem classify_total_witness:
  "classify 95 = ''Critical'' \<and> classify 10 = ''Good'' \<and> classify 80 = ''Warning''
   \<and> classify 95 \<in> {''Good'', ''Warning'', ''Critical''}"
  using classify_total [of 95] classify_total [of 10] classify_total [of 80] by simp

section \<open>The counts of the metrics\<close>



section \<open>The empty snapshot\<close>




section \<open>The alert lists\<close>

text \<open>
  C5. The critical alerts are exactly the bins with status Critical, in snapshot order
  and without a cap, so their number is the critical count of the metrics; the warning
  alerts are the first three bins with status Warning, in snapshot order, so their
  number is the smaller of the warning count and 3.
\<close>

theorem alerts_lists:
  "fst (alerts S) = filter (\<lambda>b. status b = ''Critical'') S
   \<and> int (length (fst (alerts S))) = py_sum (map (\<lambda>b. 1) (filter (\<lambda>b. status b = ''Critical'') S))
   \<and> snd (alerts S) = take 3 (filter (\<lambda>b. status b = ''Warning'') S)
   \<and> int (length (snd (alerts S))) = min (py_sum (map (\<lambda>b. 1) (filter (\<lambda>b. status b = ''Warning'') S))) 3
   \<and> length (snd (alerts S)) \<le> 3
   \<and> (\<forall>m. create_efficiency_metrics S = Inr m \<longrightarrow>
         int (length (fst (alerts S))) = critical_bins m
       \<and> int (length (snd (alerts S))) = min (warning_bins m) 3)"
proof -
  have "\<forall>m. create_efficiency_metrics S = Inr m \<longrightarrow>
         int (length (fst (alerts S))) = critical_bins m
       \<and> int (length (snd (alerts S))) = min (warning_bins m) 3"
  proof (cases "S = []")
    case True
    then show ?thesis by (simp add: metrics_empty)
  next
    case False
    then show ?thesis by (auto simp: metrics_ok alerts_def)
  qed
  then show ?thesis
    by (simp add: alerts_def py_sum_ones)
qed

theorem alerts_lists_witness:
  "(\<exists>m. create_efficiency_metrics (scenario @ scenario) = Inr m
        \<and> critical_bins m = 6 \<and> warning_bins m = 4
        \<and> int (length (fst (alerts (scenario @ scenario)))) = critical_bins m
        \<and> int (length (snd (alerts (scenario @ scenario)))) = min (warning_bins m) 3)
   \<and> length (fst (alerts (scenario @ scenario))) = 6
   \<and> length (snd (alerts (scenario @ scenario))) = 3"
proof -
  have ne: "scenario @ scenario \<noteq> []" using scenario_nonempty by simp
  have m: "\<exists>m. create_efficiency_metrics (scenario @ scenario) = Inr m
             \<and> critical_bins m = 6 \<and> warning_bins m = 4"
    by (simp add: metrics_ok [OF ne] scenario_critical scenario_warning)
  have c: "length (fst (alerts (scenario @ scenario))) = 6"
    by (simp add: alerts_def scenario_critical)
  have w: "length (snd (alerts (scenario @ scenario))) = 3"
    by (simp add: alerts_def scenario_warning)
  from alerts_lists [of "scenario @ scenario"] m c w show ?thesis by auto
qed

section \<open>The routes\<close>

text \<open>
  C6. Over the catalog of the source (efficiencies 85, 92, 78 and 88) the best route is
  Route B and the worst is Route C. On any non-empty catalog the selection returns a
  route of maximal (for the worst route: minimal) efficiency, and every route before it
  in the catalog is strictly worse (strictly better): the first occurrence wins a tie.
\<close>

theorem best_worst_route:
  "best_route = Some \<lparr>route_name = ''Route B'', route_bins = 6, route_distance = FloatLit 18.3,
                      route_time = FloatLit 2.8, efficiency = 92\<rparr>
   \<and> worst_route = Some \<lparr>route_name = ''Route C'', route_bins = 10, route_distance = FloatLit 32.1,
                      route_time = FloatLit 4.1, efficiency = 78\<rparr>
   \<and> (catalog \<noteq> [] \<longrightarrow>
        (\<exists>r k. select_route (\<lambda>a b. a > b) catalog = Some r \<and> k < length catalog \<and> catalog ! k = r
           \<and> (\<forall>j<k. efficiency (catalog ! j) < efficiency r)
           \<and> (\<forall>x\<in>set catalog. efficiency x \<le> efficiency r)))
   \<and> (catalog \<noteq> [] \<longrightarrow>
        (\<exists>r k. select_route (\<lambda>a b. a < b) catalog = Some r \<and> k < length catalog \<and> catalog ! k = r
           \<and> (\<forall>j<k. efficiency r < efficiency (catalog ! j))
           \<and> (\<forall>x\<in>set catalog. efficiency r \<le> efficiency x)))"
proof -
  have b: "best_route = Some \<lparr>route_name = ''Route B'', route_bins = 6, route_distance = FloatLit 18.3,
                      route_time = FloatLit 2.8, efficiency = 92\<rparr>"
    by (simp add: best_route_def select_route_def routes_def)
  have w: "worst_route = Some \<lparr>route_name = ''Route C'', route_bins = 10, route_distance = FloatLit 32.1,
                      route_time = FloatLit 4.1, efficiency = 78\<rparr>"
    by (simp add: worst_route_def select_route_def routes_def)
  have mx: "catalog \<noteq> [] \<longrightarrow>
        (\<exists>r k. select_route (\<lambda>a b. a > b) catalog = Some r \<and> k < length catalog \<and> catalog ! k = r
           \<and> (\<forall>j<k. efficiency (catalog ! j) < efficiency r)
           \<and> (\<forall>x\<in>set catalog. efficiency x \<le> efficiency r))"
    using select_route_first [of "\<lambda>a b. a > b" "\<lambda>x. x" catalog] by simp
  have mn: "catalog \<noteq> [] \<longrightarrow>
        (\<exists>r k. select_route (\<lambda>a b. a < b) catalog = Some r \<and> k < length catalog \<and> catalog ! k = r
           \<and> (\<forall>j<k. efficiency r < efficiency (catalog ! j))
           \<and> (\<forall>x\<in>set catalog. efficiency r \<le> efficiency x))"
    using select_route_first [of "\<lambda>a b. a < b" "\<lambda>x. - x" catalog] by simp
  from b w mx mn show ?thesis by blast
qed

theorem best_worst_route_witness:
  "tied_routes \<noteq> []
   \<and> map_option route_name (select_route (\<lambda>a b. a > b) tied_routes) = Some ''Route B''
   \<and> map_option route_name (select_route (\<lambda>a b. a < b) tied_routes) = Some ''Route C''
   \<and> (\<exists>r k. select_route (\<lambda>a b. a > b) tied_routes = Some r \<and> k < length tied_routes \<and> tied_routes ! k = r
           \<and> (\<forall>j<k. efficiency (tied_routes ! j) < efficiency r))
   \<and> (\<exists>r k. select_route (\<lambda>a b. a < b) tied_routes = Some r \<and> k < length tied_routes \<and> tied_routes ! k = r
           \<and> (\<forall>j<k. efficiency r < efficiency (tied_routes ! j)))"
proof -
  have ne: "tied_routes \<noteq> []" by (simp add: tied_routes_def)
  have b: "map_option route_name (select_route (\<lambda>a b. a > b) tied_routes) = Some ''Route B''"
    by (simp add: select_route_def tied_routes_def)
  have w: "map_option route_name (select_route (\<lambda>a b. a < b) tied_routes) = Some ''Route C''"
    by (simp add: select_route_def tied_routes_def)
  from best_worst_route [of tied_routes] ne b w show ?thesis by blast
qed

section \<open>The generated snapshot\<close>

text \<open>
  C7. Every generated snapshot holds exactly eight readings, one for each of the bin
  ids BIN001 to BIN008, in the order of \<^verbatim>\<open>bin_locations\<close> and with its coordinates
  and area names. A refresh stores a newly generated snapshot whatever was stored before,
  and the list of bin ids after a refresh is the one of the initial snapshot and of
  every other refresh.
\<close>

theorem snapshot_bins_fixed:
  "map bin_location (fst (generate_bin_data e)) = bin_locations
   \<and> length (fst (generate_bin_data e)) = 8
   \<and> map bin_id (fst (generate_bin_data e)) =
       [''BIN001'', ''BIN002'', ''BIN003'', ''BIN004'', ''BIN005'', ''BIN006'', ''BIN007'', ''BIN008'']
   \<and> distinct (map bin_id (fst (generate_bin_data e)))
   \<and> bin_data (fst (refresh s e)) = fst (generate_bin_data e)
   \<and> map bin_id (bin_data (fst (refresh s e))) = map bin_id (bin_data (fst (init_session None e')))
   \<and> map bin_id (bin_data (fst (refresh s e))) = map bin_id (bin_data (fst (refresh s' e')))"
proof -
  have len: "length (fst (generate_bin_data e)) = 8"
    using arg_cong [OF generated_ids [of e], of length] by simp
  have dist: "distinct (map bin_id (fst (generate_bin_data e)))"
    by (simp add: generated_ids)
  show ?thesis
    by (simp add: generated_locations len dist refresh_bin_data init_bin_data generated_ids)
qed

theorem snapshot_bins_fixed_witness:
  "length scenario = 8
   \<and> map bin_id scenario =
       [''BIN001'', ''BIN002'', ''BIN003'', ''BIN004'', ''BIN005'', ''BIN006'', ''BIN007'', ''BIN008'']
   \<and> map bin_id (bin_data (fst (refresh \<lparr>last_update = 0, bin_data = scenario\<rparr> scenario_env)))
       = map bin_id scenario"
  using snapshot_bins_fixed [of scenario_env "\<lparr>last_update = 0, bin_data = scenario\<rparr>"]
  by (simp add: scenario_def)

text \<open>
  C8. In every generated snapshot the stored status of each reading is the status that
  the threshold expression gives for its fill level.
\<close>

theorem generated_status_consistent:
  "\<forall>b\<in>set (fst (generate_bin_data e)). status b = classify (fill_level b)"
  unfolding generate_bin_data_def by (rule generate_loop_status) simp

theorem generated_status_consistent_witness:
  "scenario ! 3 \<in> set (fst (generate_bin_data scenario_env))
   \<and> fill_level (scenario ! 3) = 71 \<and> status (scenario ! 3) = ''Warning''
   \<and> status (scenario ! 3) = classify (fill_level (scenario ! 3))"
proof -
  have mem: "scenario ! 3 \<in> set (fst (generate_bin_data scenario_env))"
    using scenario_length by (simp add: scenario_def [symmetric])
  have f: "fill_level (scenario ! 3) = 71"
    using arg_cong [OF scenario_fill, of "\<lambda>xs. xs ! 3"] scenario_length by simp
  have s: "status (scenario ! 3) = ''Warning''"
    using arg_cong [OF scenario_status, of "\<lambda>xs. xs ! 3"] scenario_length by simp
  from generated_status_consistent [of scenario_env] mem
  have "status (scenario ! 3) = classify (fill_level (scenario ! 3))" by blast
  with mem f s show ?thesis by simp
qed

section \<open>The periodic refresh\<close>

text \<open>
  C9. The periodic check compares the \<^verbatim>\<open>.seconds\<close> component of the elapsed time
  with 30, not the elapsed time. With the last update at 1700000000 seconds and the
  clock reading one day and ten seconds later, the elapsed time exceeds 30 seconds, yet
  the check, and with it the controls of \<^verbatim>\<open>main\<close> with the auto refresh box ticked
  and the button not pressed, leaves the stored snapshot and the time of the last
  update unchanged and requests no rerun.
\<close>

theorem auto_refresh_skipped_after_a_day:
  "1700086410000000 - last_update \<lparr>last_update = 1700000000000000, bin_data = scenario\<rparr> > 30 * 1000000
   \<and> auto_refresh_check \<lparr>last_update = 1700000000000000, bin_data = scenario\<rparr>
       \<lparr>rand_src = (\<lambda>n. n), rand_pos = 80, clock_src = (\<lambda>n. 1700086410000000), clock_pos = 9\<rparr>
     = (False, \<lparr>last_update = 1700000000000000, bin_data = scenario\<rparr>,
        \<lparr>rand_src = (\<lambda>n. n), rand_pos = 80, clock_src = (\<lambda>n. 1700086410000000), clock_pos = 10\<rparr>)
   \<and> main_controls True False \<lparr>last_update = 1700000000000000, bin_data = scenario\<rparr>
       \<lparr>rand_src = (\<lambda>n. n), rand_pos = 80, clock_src = (\<lambda>n. 1700086410000000), clock_pos = 9\<rparr>
     = (False, \<lparr>last_update = 1700000000000000, bin_data = scenario\<rparr>,
        \<lparr>rand_src = (\<lambda>n. n), rand_pos = 80, clock_src = (\<lambda>n. 1700086410000000), clock_pos = 10\<rparr>)"
  by (simp add: main_controls_def auto_refresh_check_def now_def timedelta_seconds_def)

section \<open>The map markers\<close>

text \<open>
  C10. For a bin whose stored status is the one the threshold expression gives for its
  fill level, the colour that \<^verbatim>\<open>create_city_map\<close> derives again from the fill level
  agrees with the status: red exactly for Critical, orange exactly for Warning, green
  exactly for Good.
\<close>

theorem marker_color_agrees:
  "i < length S \<Longrightarrow> status (S ! i) = classify (fill_level (S ! i)) \<Longrightarrow>
     length (create_city_map S) = length S
   \<and> (marker_color (create_city_map S ! i) = ''red'' \<longleftrightarrow> status (S ! i) = ''Critical'')
   \<and> (marker_color (create_city_map S ! i) = ''orange'' \<longleftrightarrow> status (S ! i) = ''Warning'')
   \<and> (marker_color (create_city_map S ! i) = ''green'' \<longleftrightarrow> status (S ! i) = ''Good'')
   \<and> marker_fillColor (create_city_map S ! i) = marker_color (create_city_map S ! i)"
  by (simp add: create_city_map_def circle_marker_def classify_def Let_def)

theorem marker_color_agrees_witness:
  "(0::nat) < length scenario \<and> status (scenario ! 0) = classify (fill_level (scenario ! 0))
   \<and> marker_color (create_city_map scenario ! 0) = ''red'' \<and> status (scenario ! 0) = ''Critical''
   \<and> marker_color (create_city_map scenario ! 0) \<noteq> ''orange''
   \<and> marker_color (create_city_map scenario ! 0) \<noteq> ''green''"
proof -
  have l: "0 < length scenario" by (simp add: scenario_length)
  have f: "fill_level (scenario ! 0) = 90"
    using arg_cong [OF scenario_fill, of "\<lambda>xs. xs ! 0"] l by (simp add: nth_map)
  have s: "status (scenario ! 0) = ''Critical''"
    using arg_cong [OF scenario_status, of "\<lambda>xs. xs ! 0"] l by (simp add: nth_map)
  have c: "status (scenario ! 0) = classify (fill_level (scenario ! 0))"
    by (simp add: f s classify_def)
  from marker_color_agrees [OF l c] l c s show ?thesis by simp
qed

end
